theory Spec2Isabelle
  imports Complex_Main "HOL-Library.Sublist" "HOL-Library.Multiset" "HOL-Library.Log_Nat"
begin

section \<open>JavaScript strings\<close>

text \<open>
  A JavaScript string is modelled as a \<^typ>\<open>string\<close>: a list of code units, each
  \<^typ>\<open>char\<close> standing for the code unit of the same number (U+0000 to U+00FF).
  \<open>String.prototype.toLowerCase\<close> maps, in that range, the letters A to Z and the
  Latin-1 capitals U+00C0 to U+00DE (U+00D7, the multiplication sign, apart) to the code
  unit 32 above, and leaves every other code unit as it is.
\<close>

definition toLowerCase_char :: "char \<Rightarrow> char" where
  "toLowerCase_char c =
     (let n = (of_char c :: nat)
      in if (65 \<le> n \<and> n \<le> 90) \<or> (192 \<le> n \<and> n \<le> 222 \<and> n \<noteq> 215)
         then char_of (n + 32) else c)"

definition toLowerCase :: "string \<Rightarrow> string" where
  "toLowerCase s = map toLowerCase_char s"

text \<open>\<open>s.startsWith(p)\<close> and \<open>s.includes(p)\<close>, by a scan from the left.\<close>

fun startsWith :: "string \<Rightarrow> string \<Rightarrow> bool" where
  "startsWith s [] = True"
| "startsWith [] (p # ps) = False"
| "startsWith (c # cs) (p # ps) = (c = p \<and> startsWith cs ps)"

fun includes_str :: "string \<Rightarrow> string \<Rightarrow> bool" where
  "includes_str [] p = startsWith [] p"
| "includes_str (c # cs) p = (startsWith (c # cs) p \<or> includes_str cs p)"

text \<open>The character class \<open>\d\<close> of a JavaScript regular expression: the ten ASCII digits.\<close>

definition is_digit :: "char \<Rightarrow> bool" where
  "is_digit c = (c \<in> set ''0123456789'')"

section \<open>whatsapp.js: formatPhoneNumber\<close>

text \<open>
  \<open>phoneNumber.replace(/\D/g, '')\<close>: the global replacement walks the string once and
  drops every code unit that \<open>\D\<close> matches.
\<close>

fun replace_non_digits :: "string \<Rightarrow> string" where
  "replace_non_digits [] = []"
| "replace_non_digits (c # cs) =
     (if is_digit c then c # replace_non_digits cs else replace_non_digits cs)"

definition whatsapp_suffix :: string where
  "whatsapp_suffix = ''@s.whatsapp.net''"

definition formatPhoneNumber :: "string \<Rightarrow> string" where
  "formatPhoneNumber phoneNumber =
     (let cleaned = replace_non_digits phoneNumber;
          cleaned = (if \<not> startsWith cleaned ''1'' \<and> length cleaned = 10
                     then ''1'' @ cleaned else cleaned)
      in cleaned @ whatsapp_suffix)"

section \<open>ai.js: the responder\<close>

text \<open>
  A product of \<open>products.json\<close>. The optional members (\<open>sizes\<close>, \<open>colors\<close>,
  \<open>category\<close>, \<open>keywords\<close>) are \<open>None\<close> when the JSON object does not have them.
\<close>

record product =
  product_id :: string
  product_name :: string
  product_price :: rat
  product_description :: string
  product_sizes :: "string list option"
  product_colors :: "string list option"
  product_category :: "string option"
  product_keywords :: "string list option"

text \<open>A thrown \<open>Error\<close>, with its \<open>message\<close>.\<close>

datatype js_error = Error string

fun error_message :: "js_error \<Rightarrow> string" where
  "error_message (Error m) = m"

text \<open>
  An element of \<open>chatHistory\<close>: a stored chat row has \<open>role\<close> and \<open>message\<close>; the
  responder also reads \<open>content\<close>.
\<close>

record history_entry =
  entry_role :: string
  entry_message :: "string option"
  entry_content :: "string option"

record ollama_message =
  ollama_role :: string
  ollama_content :: "string option"

text \<open>
  What \<open>fetch\<close> to the chat endpoint of the model server gives: a rejected promise, or a
  response with its \<open>ok\<close> flag, its status line (\<open>status\<close> and \<open>statusText\<close>) and what
  reading \<open>data.message.content\<close> off the parsed body gives: an error (the body is not
  JSON, or has no member \<open>message\<close>), or the member (\<open>None\<close> when \<open>message\<close> has
  no \<open>content\<close>).
\<close>

datatype fetch_outcome =
  Rejected js_error
| Response bool string "js_error + string option"

record extracted_info =
  info_name :: "string option"
  info_city :: "string option"

text \<open>
  The world around the module. \<open>products_file\<close> is the outcome of reading and parsing
  \<open>products.json\<close> and selecting \<open>parsed.products\<close>: an error, or the member
  (\<open>None\<close> when the parsed object has no such member). \<open>ollama\<close> answers a request
  to the model server. The system prompt is a text computed from the catalog alone and
  the extraction of name and city is a regular-expression search in the message alone;
  neither can raise, and both are taken as given functions.
\<close>

record ai_env =
  products_file :: "js_error + product list option"
  ollama :: "ollama_message list \<Rightarrow> fetch_outcome"
  createSystemPrompt :: "product list \<Rightarrow> string"
  extractCustomerInfo :: "string \<Rightarrow> history_entry list \<Rightarrow> extracted_info"

text \<open>
  The state of the module: the cache \<open>productsData\<close> (\<open>None\<close> for \<open>null\<close> and
  \<open>undefined\<close>), and the requests sent to the model server so far.
\<close>

record ai_state =
  productsData :: "product list option"
  ollama_requests :: "ollama_message list list"

definition loadProducts :: "ai_env \<Rightarrow> ai_state \<Rightarrow> (js_error + product list option) \<times> ai_state" where
  "loadProducts env st =
     (case productsData st of
        Some cached \<Rightarrow> (Inr (Some cached), st)
      | None \<Rightarrow>
          (case products_file env of
             Inl error \<Rightarrow> (Inl error, st)
           | Inr parsed_products \<Rightarrow>
               (Inr parsed_products, st\<lparr>productsData := parsed_products\<rparr>)))"

definition callOllama ::
  "ai_env \<Rightarrow> ai_state \<Rightarrow> history_entry list \<Rightarrow> string
     \<Rightarrow> (js_error + string option) \<times> ai_state" where
  "callOllama env st chatHistory systemPrompt =
     (let messages =
            \<lparr>ollama_role = ''system'', ollama_content = Some systemPrompt\<rparr> #
            map (\<lambda>msg.
                  \<lparr>ollama_role =
                     (if entry_role msg = ''assistant'' then ''assistant'' else ''user''),
                   ollama_content =
                     (case entry_message msg of
                        Some m \<Rightarrow> if m \<noteq> [] then Some m else entry_content msg
                      | None \<Rightarrow> entry_content msg)\<rparr>)
              chatHistory;
          st' = st\<lparr>ollama_requests := ollama_requests st @ [messages]\<rparr>
      in case ollama env messages of
           Rejected error \<Rightarrow> (Inl error, st')
         | Response ok status content \<Rightarrow>
             if \<not> ok then (Inl (Error (''Ollama API error: '' @ status)), st')
             else (content, st'))"

definition agentKeywords :: "string list" where
  "agentKeywords =
     [''agent'', ''human'', ''speak to someone'', ''talk to person'', ''real person'']"

definition isAgentRequested :: "string \<Rightarrow> bool" where
  "isAgentRequested message =
     (let lowerMessage = toLowerCase message
      in list_ex (\<lambda>keyword. includes_str lowerMessage keyword) agentKeywords)"

text \<open>
  The body of the loop of \<open>findRelevantProducts\<close> decides whether to push the product:
  a keyword matches, or else the category is there, is not the empty string and matches,
  or else the name matches.
\<close>

definition product_matches :: "string \<Rightarrow> product \<Rightarrow> bool" where
  "product_matches lowerMessage product =
     (if (case product_keywords product of
            None \<Rightarrow> False
          | Some keywords \<Rightarrow>
              list_ex (\<lambda>keyword. includes_str lowerMessage (toLowerCase keyword)) keywords)
      then True
      else if (case product_category product of
                 None \<Rightarrow> False
               | Some category \<Rightarrow>
                   category \<noteq> [] \<and> includes_str lowerMessage (toLowerCase category))
      then True
      else includes_str lowerMessage (toLowerCase (product_name product)))"

fun relevant_loop :: "string \<Rightarrow> product list \<Rightarrow> product list \<Rightarrow> product list" where
  "relevant_loop lowerMessage [] relevantProducts = relevantProducts"
| "relevant_loop lowerMessage (product # rest) relevantProducts =
     relevant_loop lowerMessage rest
       (if product_matches lowerMessage product then relevantProducts @ [product]
        else relevantProducts)"

definition findRelevantProducts :: "string \<Rightarrow> product list \<Rightarrow> product list" where
  "findRelevantProducts message products =
     (let lowerMessage = toLowerCase message
      in take 3 (relevant_loop lowerMessage products []))"

text \<open>
  The reply texts. \<open>HandoffReply\<close> is the fixed text that starts "I understand you'd like
  to speak with a human agent.", \<open>FallbackReply\<close> the fixed text that starts "I'm having
  a little trouble right now.", and \<open>ModelReply\<close> carries what the model gave.
\<close>

datatype reply_text = HandoffReply | ModelReply "string option" | FallbackReply

record product_summary =
  summary_id :: string
  summary_name :: string
  summary_price :: rat

text \<open>The \<open>metadata\<close> object; a member the object does not have is \<open>None\<close>.\<close>

record metadata =
  agentRequested :: "bool option"
  extractedInfo :: "extracted_info option"
  relevantProducts :: "product_summary list option"
  error :: "bool option"
  errorMessage :: "string option"

record response =
  message :: reply_text
  metadata :: metadata

definition no_metadata :: metadata where
  "no_metadata =
     \<lparr>agentRequested = None, extractedInfo = None, relevantProducts = None,
      error = None, errorMessage = None\<rparr>"

text \<open>
  The \<open>try\<close> block of \<open>generateResponse\<close>: \<open>Inl\<close> is an error thrown out of it. When
  \<open>products\<close> is \<open>undefined\<close>, the \<open>for ... of\<close> loop of \<open>findRelevantProducts\<close>
  throws a \<open>TypeError\<close>.
\<close>

definition generateResponse_try ::
  "ai_env \<Rightarrow> ai_state \<Rightarrow> string \<Rightarrow> history_entry list \<Rightarrow> (js_error + response) \<times> ai_state" where
  "generateResponse_try env st userMessage chatHistory =
     (case loadProducts env st of
        (Inl err, st1) \<Rightarrow> (Inl err, st1)
      | (Inr products, st1) \<Rightarrow>
          if isAgentRequested userMessage
          then (Inr \<lparr>message = HandoffReply,
                     metadata = no_metadata\<lparr>agentRequested := Some True\<rparr>\<rparr>, st1)
          else
            let extracted = extractCustomerInfo env userMessage chatHistory in
            (case products of
               None \<Rightarrow> (Inl (Error ''products is not iterable''), st1)
             | Some products \<Rightarrow>
                 let relevant = findRelevantProducts userMessage products;
                     systemPrompt = createSystemPrompt env products;
                     fullHistory = chatHistory @
                       [\<lparr>entry_role = ''user'', entry_message = Some userMessage,
                         entry_content = None\<rparr>]
                 in (case callOllama env st1 fullHistory systemPrompt of
                       (Inl err, st2) \<Rightarrow> (Inl err, st2)
                     | (Inr aiResponse, st2) \<Rightarrow>
                         (Inr \<lparr>message = ModelReply aiResponse,
                               metadata = no_metadata
                                 \<lparr>extractedInfo := Some extracted,
                                  relevantProducts := Some
                                    (map (\<lambda>p. \<lparr>summary_id = product_id p,
                                               summary_name = product_name p,
                                               summary_price = product_price p\<rparr>) relevant),
                                  agentRequested := Some False\<rparr>\<rparr>, st2))))"

text \<open>The \<open>catch\<close> block: the fallback reply.\<close>

definition fallback_response :: "js_error \<Rightarrow> response" where
  "fallback_response err =
     \<lparr>message = FallbackReply,
      metadata = no_metadata\<lparr>error := Some True,
                             errorMessage := Some (error_message err)\<rparr>\<rparr>"

definition generateResponse ::
  "ai_env \<Rightarrow> ai_state \<Rightarrow> string \<Rightarrow> history_entry list \<Rightarrow> response \<times> ai_state" where
  "generateResponse env st userMessage chatHistory =
     (case generateResponse_try env st userMessage chatHistory of
        (Inl err, st') \<Rightarrow> (fallback_response err, st')
      | (Inr result, st') \<Rightarrow> (result, st'))"

section \<open>JavaScript numbers\<close>


text \<open>The exponent of a positive rational: the \<open>d\<close> with \<open>2^d \<le> x < 2^(d+1)\<close>.\<close>

definition floor_log2 :: "rat \<Rightarrow> int" where
  "floor_log2 x =
     (let d = bitlen (fst (quotient_of x)) - bitlen (snd (quotient_of x))
      in if 2 powi d \<le> x then d else d - 1)"








section \<open>The hosted store\<close>

text \<open>
  The three tables of the migration, as lists of rows in the order of insertion. A
  \<open>uuid\<close> is a number, a \<open>timestamptz\<close> an instant on a line of instants. The columns
  \<open>customer_name\<close>, \<open>city\<close>, \<open>total_amount\<close>, \<open>notes\<close> and \<open>metadata\<close> may be
  \<open>NULL\<close>. The rounding of \<open>total_amount\<close> to the scale of its column is left out.
\<close>

type_synonym uuid = nat

type_synonym timestamptz = nat

datatype json =
  JNull
| JBool bool
| JNumber rat
| JString string
| JArray "json list"
| JObject "(string \<times> json) list"

record lead_row =
  lead_id :: uuid
  lead_phone_number :: string
  lead_customer_name :: "string option"
  lead_city :: "string option"
  lead_status :: string
  lead_needs_human_agent :: bool
  lead_last_message_at :: timestamptz
  lead_created_at :: timestamptz
  lead_updated_at :: timestamptz

record chat_row =
  chat_id :: uuid
  chat_lead_id :: uuid
  chat_phone_number :: string
  chat_role :: string
  chat_message :: string
  chat_metadata :: "json option"
  chat_created_at :: timestamptz

record order_row =
  order_id :: uuid
  order_lead_id :: uuid
  order_phone_number :: string
  order_products :: "json list"
  order_total_amount :: "rat option"
  order_status :: string
  order_notes :: "string option"
  order_created_at :: timestamptz

text \<open>
  What a request to the store can fail with: the request does not get through, a result
  asked for with \<open>single()\<close> or \<open>maybeSingle()\<close> has the wrong number of rows, or a
  constraint of the schema rejects the statement.
\<close>

datatype db_error =
  ConnectionError
| NotSingleRow
| UniqueViolation
| CheckViolation
| ForeignKeyViolation

text \<open>
  The store: its tables, the value \<open>gen_random_uuid()\<close> gives next, and for each of the
  requests to come whether it fails before it reaches the tables (\<open>True\<close>: it fails; a
  list that has run out: no more failures).
\<close>

record db =
  leads :: "lead_row list"
  chat_history :: "chat_row list"
  orders :: "order_row list"
  fresh_uuid :: uuid
  outages :: "bool list"

text \<open>
  A statement either fails and changes nothing, or gives its result and the new store.
  \<open>request\<close> sends one statement: it uses up one entry of \<open>outages\<close>.
\<close>

type_synonym 'a statement = "db \<Rightarrow> db_error + 'a \<times> db"

definition request :: "'a statement \<Rightarrow> db \<Rightarrow> (db_error + 'a) \<times> db" where
  "request stmt d =
     (let d' = d\<lparr>outages := tl (outages d)\<rparr>
      in case outages d of
           True # rest \<Rightarrow> (Inl ConnectionError, d')
         | _ \<Rightarrow>
             (case stmt d' of
                Inl e \<Rightarrow> (Inl e, d')
              | Inr (result, d'') \<Rightarrow> (Inr result, d'')))"

definition single :: "'a list \<Rightarrow> db_error + 'a" where
  "single rows = (case rows of [row] \<Rightarrow> Inr row | _ \<Rightarrow> Inl NotSingleRow)"

definition maybeSingle :: "'a list \<Rightarrow> db_error + 'a option" where
  "maybeSingle rows =
     (case rows of [] \<Rightarrow> Inr None | [row] \<Rightarrow> Inr (Some row) | _ \<Rightarrow> Inl NotSingleRow)"

text \<open>The \<open>CHECK\<close> constraints of the three tables.\<close>

definition lead_statuses :: "string list" where
  "lead_statuses = [''new'', ''contacted'', ''qualified'', ''converted'', ''lost'']"

definition chat_roles :: "string list" where
  "chat_roles = [''user'', ''assistant'']"

definition order_statuses :: "string list" where
  "order_statuses = [''pending'', ''confirmed'', ''completed'', ''cancelled'']"

text \<open>
  \<open>from('leads').select('*').eq('phone_number', p).maybeSingle()\<close>.
\<close>

definition select_lead_by_phone :: "string \<Rightarrow> lead_row option statement" where
  "select_lead_by_phone phoneNumber d =
     (case maybeSingle (filter (\<lambda>l. lead_phone_number l = phoneNumber) (leads d)) of
        Inl e \<Rightarrow> Inl e
      | Inr found \<Rightarrow> Inr (found, d))"

text \<open>
  \<open>from('leads').update(...).eq(...).select().single()\<close>: the rows the filter selects
  are changed, unless a changed row breaks the \<open>CHECK\<close> on \<open>status\<close>, or the rows
  changed are not exactly one; then the statement fails and nothing is changed.
\<close>

definition update_leads ::
  "(lead_row \<Rightarrow> bool) \<Rightarrow> (lead_row \<Rightarrow> lead_row) \<Rightarrow> lead_row statement" where
  "update_leads selected change d =
     (let changed = map change (filter selected (leads d))
      in if \<not> list_all (\<lambda>l. lead_status l \<in> set lead_statuses) changed
         then Inl CheckViolation
         else case single changed of
                Inl e \<Rightarrow> Inl e
              | Inr row \<Rightarrow>
                  Inr (row, d\<lparr>leads := map (\<lambda>l. if selected l then change l else l)
                                          (leads d)\<rparr>))"

text \<open>
  \<open>from('leads').insert({phone_number, status, last_message_at}).select().single()\<close>.
  The other columns take their defaults; \<open>id\<close> is the primary key and \<open>phone_number\<close>
  is \<open>UNIQUE\<close>.
\<close>

definition insert_lead :: "timestamptz \<Rightarrow> string \<Rightarrow> string \<Rightarrow> timestamptz \<Rightarrow> lead_row statement" where
  "insert_lead now phoneNumber status last_message_at d =
     (let row = \<lparr>lead_id = fresh_uuid d, lead_phone_number = phoneNumber,
                 lead_customer_name = None, lead_city = None, lead_status = status,
                 lead_needs_human_agent = False, lead_last_message_at = last_message_at,
                 lead_created_at = now, lead_updated_at = now\<rparr>
      in if lead_id row \<in> set (map lead_id (leads d))
            \<or> phoneNumber \<in> set (map lead_phone_number (leads d))
         then Inl UniqueViolation
         else if status \<notin> set lead_statuses then Inl CheckViolation
         else Inr (row, d\<lparr>leads := leads d @ [row], fresh_uuid := Suc (fresh_uuid d)\<rparr>))"

text \<open>\<open>from('chat_history').insert({...}).select().single()\<close>.\<close>

definition insert_chat ::
  "timestamptz \<Rightarrow> uuid \<Rightarrow> string \<Rightarrow> string \<Rightarrow> string \<Rightarrow> json option \<Rightarrow> chat_row statement" where
  "insert_chat now leadId phoneNumber role text meta d =
     (let row = \<lparr>chat_id = fresh_uuid d, chat_lead_id = leadId,
                 chat_phone_number = phoneNumber, chat_role = role, chat_message = text,
                 chat_metadata = meta, chat_created_at = now\<rparr>
      in if chat_id row \<in> set (map chat_id (chat_history d)) then Inl UniqueViolation
         else if leadId \<notin> set (map lead_id (leads d)) then Inl ForeignKeyViolation
         else if role \<notin> set chat_roles then Inl CheckViolation
         else Inr (row, d\<lparr>chat_history := chat_history d @ [row],
                           fresh_uuid := Suc (fresh_uuid d)\<rparr>))"

text \<open>
  \<open>from('chat_history').select('*').eq('phone_number', p).order('created_at',
  {ascending: true}).limit(n)\<close>: the rows of the number, by ascending \<open>created_at\<close>,
  cut after the first \<open>n\<close>. Rows of the same instant are kept in the order of the table.
\<close>

definition select_chat_history :: "string \<Rightarrow> nat \<Rightarrow> chat_row list statement" where
  "select_chat_history phoneNumber limit d =
     Inr (take limit
            (sort_key chat_created_at
               (filter (\<lambda>c. chat_phone_number c = phoneNumber) (chat_history d))), d)"

text \<open>\<open>from('orders').insert({...}).select().single()\<close>.\<close>

definition insert_order ::
  "timestamptz \<Rightarrow> uuid \<Rightarrow> string \<Rightarrow> json list \<Rightarrow> rat option \<Rightarrow> string \<Rightarrow> string option
     \<Rightarrow> order_row statement" where
  "insert_order now leadId phoneNumber products totalAmount status notes d =
     (let row = \<lparr>order_id = fresh_uuid d, order_lead_id = leadId,
                 order_phone_number = phoneNumber, order_products = products,
                 order_total_amount = totalAmount, order_status = status,
                 order_notes = notes, order_created_at = now\<rparr>
      in if order_id row \<in> set (map order_id (orders d)) then Inl UniqueViolation
         else if leadId \<notin> set (map lead_id (leads d)) then Inl ForeignKeyViolation
         else if status \<notin> set order_statuses then Inl CheckViolation
         else Inr (row, d\<lparr>orders := orders d @ [row], fresh_uuid := Suc (fresh_uuid d)\<rparr>))"

text \<open>\<open>from('orders').update({status}).eq('id', orderId).select().single()\<close>.\<close>

definition update_order_status :: "uuid \<Rightarrow> string \<Rightarrow> order_row statement" where
  "update_order_status orderId status d =
     (let changed = map (\<lambda>ord. ord\<lparr>order_status := status\<rparr>)
                      (filter (\<lambda>ord. order_id ord = orderId) (orders d))
      in if \<not> list_all (\<lambda>ord. order_status ord \<in> set order_statuses) changed
         then Inl CheckViolation
         else case single changed of
                Inl e \<Rightarrow> Inl e
              | Inr row \<Rightarrow>
                  Inr (row, d\<lparr>orders := map (\<lambda>ord. if order_id ord = orderId
                                                      then ord\<lparr>order_status := status\<rparr>
                                                      else ord) (orders d)\<rparr>))"


definition count_orders :: "nat statement" where
  "count_orders d = Inr (length (orders d), d)"

section \<open>database.js\<close>

text \<open>
  Every operation takes the reading \<open>now\<close> of the clock at the call (the value of
  \<open>new Date()\<close>, which the defaults \<open>now()\<close> of the store are taken to agree with) and
  the store, and returns the thrown error or the result, with the store after the call.
\<close>

definition getOrCreateLead :: "timestamptz \<Rightarrow> string \<Rightarrow> db \<Rightarrow> (db_error + lead_row) \<times> db" where
  "getOrCreateLead now phoneNumber d =
     (case request (select_lead_by_phone phoneNumber) d of
        (Inl selectError, d1) \<Rightarrow> (Inl selectError, d1)
      | (Inr (Some existingLead), d1) \<Rightarrow>
          request (update_leads (\<lambda>l. lead_id l = lead_id existingLead)
                     (\<lambda>l. l\<lparr>lead_last_message_at := now, lead_updated_at := now\<rparr>)) d1
      | (Inr None, d1) \<Rightarrow>
          request (insert_lead now phoneNumber ''new'' now) d1)"

text \<open>
  The \<open>updates\<close> object of \<open>updateLead\<close>, with the members the callers of this
  repository give it; \<open>None\<close> is a member the object does not have.
\<close>

record lead_updates =
  set_customer_name :: "string option"
  set_city :: "string option"
  set_status :: "string option"
  set_needs_human_agent :: "bool option"

definition no_updates :: lead_updates where
  "no_updates =
     \<lparr>set_customer_name = None, set_city = None, set_status = None,
      set_needs_human_agent = None\<rparr>"

definition apply_updates :: "lead_updates \<Rightarrow> timestamptz \<Rightarrow> lead_row \<Rightarrow> lead_row" where
  "apply_updates updates now l =
     l\<lparr>lead_customer_name :=
         (case set_customer_name updates of None \<Rightarrow> lead_customer_name l | Some n \<Rightarrow> Some n),
       lead_city := (case set_city updates of None \<Rightarrow> lead_city l | Some c \<Rightarrow> Some c),
       lead_status := (case set_status updates of None \<Rightarrow> lead_status l | Some s \<Rightarrow> s),
       lead_needs_human_agent :=
         (case set_needs_human_agent updates of
            None \<Rightarrow> lead_needs_human_agent l
          | Some b \<Rightarrow> b),
       lead_updated_at := now\<rparr>"

definition updateLead ::
  "timestamptz \<Rightarrow> uuid \<Rightarrow> lead_updates \<Rightarrow> db \<Rightarrow> (db_error + lead_row) \<times> db" where
  "updateLead now leadId updates d =
     request (update_leads (\<lambda>l. lead_id l = leadId) (apply_updates updates now)) d"

definition markForHumanAgent :: "timestamptz \<Rightarrow> string \<Rightarrow> db \<Rightarrow> (db_error + lead_row) \<times> db" where
  "markForHumanAgent now phoneNumber d =
     request (update_leads (\<lambda>l. lead_phone_number l = phoneNumber)
                (\<lambda>l. l\<lparr>lead_needs_human_agent := True, lead_status := ''qualified'',
                       lead_updated_at := now\<rparr>)) d"

definition saveChatMessage ::
  "timestamptz \<Rightarrow> uuid \<Rightarrow> string \<Rightarrow> string \<Rightarrow> string \<Rightarrow> json option \<Rightarrow> db
     \<Rightarrow> (db_error + chat_row) \<times> db" where
  "saveChatMessage now leadId phoneNumber role text meta d =
     request (insert_chat now leadId phoneNumber role text meta) d"

text \<open>\<open>getChatHistory(phoneNumber, limit)\<close>; the caller that leaves \<open>limit\<close> out gets 20.\<close>

definition getChatHistory :: "string \<Rightarrow> nat \<Rightarrow> db \<Rightarrow> (db_error + chat_row list) \<times> db" where
  "getChatHistory phoneNumber limit d =
     request (select_chat_history phoneNumber limit) d"

definition createOrder ::
  "timestamptz \<Rightarrow> uuid \<Rightarrow> string \<Rightarrow> json list \<Rightarrow> rat option \<Rightarrow> string option \<Rightarrow> db
     \<Rightarrow> (db_error + order_row) \<times> db" where
  "createOrder now leadId phoneNumber products totalAmount notes d =
     (case request (insert_order now leadId phoneNumber products totalAmount ''pending'' notes) d of
        (Inl e, d1) \<Rightarrow> (Inl e, d1)
      | (Inr data, d1) \<Rightarrow>
          (case updateLead now leadId (no_updates\<lparr>set_status := Some ''converted''\<rparr>) d1 of
             (Inl e, d2) \<Rightarrow> (Inl e, d2)
           | (Inr updated, d2) \<Rightarrow> (Inr data, d2)))"

definition updateOrderStatus :: "uuid \<Rightarrow> string \<Rightarrow> db \<Rightarrow> (db_error + order_row) \<times> db" where
  "updateOrderStatus orderId status d = request (update_order_status orderId status) d"



section \<open>routes/orders.js: the handler of PUT /api/orders/:orderId/status\<close>

text \<open>
  The member \<open>status\<close> of the request body is any JSON value, or is not there
  (\<open>None\<close>, for \<open>undefined\<close>). \<open>falsy\<close> is the test \<open>!status\<close>.
\<close>

fun falsy :: "json option \<Rightarrow> bool" where
  "falsy None = True"
| "falsy (Some JNull) = True"
| "falsy (Some (JBool b)) = (\<not> b)"
| "falsy (Some (JNumber n)) = (n = 0)"
| "falsy (Some (JString s)) = (s = [])"
| "falsy (Some (JArray xs)) = False"
| "falsy (Some (JObject ms)) = False"

definition validStatuses :: "string list" where
  "validStatuses = [''pending'', ''confirmed'', ''completed'', ''cancelled'']"

text \<open>
  \<open>validStatuses.includes(status)\<close> compares with each of the four strings; a value that
  is not a string equals none of them.
\<close>

fun includes_status :: "string list \<Rightarrow> json option \<Rightarrow> bool" where
  "includes_status statuses (Some (JString s)) = (s \<in> set statuses)"
| "includes_status statuses other = False"

text \<open>
  The response: the HTTP status code and the JSON envelope, \<open>{success: false, error,
  message?}\<close> or \<open>{success: true, message, data}\<close>.
\<close>

datatype 'a envelope =
  Failure string "string option"
| Success string 'a

record 'a http_response =
  status_code :: nat
  body :: "'a envelope"

fun db_error_message :: "db_error \<Rightarrow> string" where
  "db_error_message ConnectionError = ''fetch failed''"
| "db_error_message NotSingleRow = ''JSON object requested, multiple (or no) rows returned''"
| "db_error_message UniqueViolation = ''duplicate key value violates unique constraint''"
| "db_error_message CheckViolation = ''new row violates check constraint''"
| "db_error_message ForeignKeyViolation = ''insert or update violates foreign key constraint''"

text \<open>
  The handler. An error thrown by \<open>updateOrderStatus\<close> is caught and answered with
  500. A status that has passed both tests is one of the four strings, so the last case
  of the inner distinction is never taken.
\<close>

definition put_order_status ::
  "uuid \<Rightarrow> json option \<Rightarrow> db \<Rightarrow> order_row http_response \<times> db" where
  "put_order_status orderId status d =
     (if falsy status
      then (\<lparr>status_code = 400, body = Failure ''Status is required'' None\<rparr>, d)
      else if \<not> includes_status validStatuses status
      then (\<lparr>status_code = 400,
             body = Failure
               ''Status must be one of: pending, confirmed, completed, cancelled'' None\<rparr>, d)
      else
        (case status of
           Some (JString s) \<Rightarrow>
             (case updateOrderStatus orderId s d of
                (Inr updatedOrder, d') \<Rightarrow>
                  (\<lparr>status_code = 200,
                    body = Success ''Order status updated successfully'' updatedOrder\<rparr>, d')
              | (Inl e, d') \<Rightarrow>
                  (\<lparr>status_code = 500,
                    body = Failure ''Failed to update order status''
                             (Some (db_error_message e))\<rparr>, d'))
         | _ \<Rightarrow>
             (\<lparr>status_code = 500,
               body = Failure ''Failed to update order status'' None\<rparr>, d)))"

section \<open>The words of the specification about the responder\<close>

text \<open>
  A text \<open>k\<close> occurs in a message as a case-insensitive substring when some stretch of
  the message equals \<open>k\<close> once both are put in lower case.
\<close>

definition occurs_ignoring_case :: "string \<Rightarrow> string \<Rightarrow> bool" where
  "occurs_ignoring_case k m =
     (\<exists>pre mid post. m = pre @ mid @ post \<and> toLowerCase mid = toLowerCase k)"

text \<open>The message contains one of the handoff keywords, whatever the case of its letters.\<close>

definition contains_handoff_keyword :: "string \<Rightarrow> bool" where
  "contains_handoff_keyword m = (\<exists>k \<in> set agentKeywords. occurs_ignoring_case k m)"

text \<open>
  \<open>loadProducts\<close> does not throw: the catalog is cached already, or reading and parsing
  the file succeeds.
\<close>

definition catalog_loads :: "ai_env \<Rightarrow> ai_state \<Rightarrow> bool" where
  "catalog_loads env st = (productsData st \<noteq> None \<or> \<not> isl (products_file env))"

text \<open>A product matches the message by one of its keywords, by its category or by its name.\<close>

definition matches_message :: "string \<Rightarrow> product \<Rightarrow> bool" where
  "matches_message msg p =
     ((\<exists>ks. product_keywords p = Some ks \<and> (\<exists>k \<in> set ks. occurs_ignoring_case k msg))
      \<or> (\<exists>c. product_category p = Some c \<and> occurs_ignoring_case c msg)
      \<or> occurs_ignoring_case (product_name p) msg)"

section \<open>The words of the specification about the chat history\<close>



section \<open>The words of the specification about the statistics\<close>



section \<open>Example inputs\<close>

text \<open>A catalog of five products, a world where everything works, and one where
  \<open>products.json\<close> cannot be read.\<close>

definition example_product :: "string \<Rightarrow> string \<Rightarrow> string option \<Rightarrow> string list option \<Rightarrow> product" where
  "example_product ident name category keywords =
     \<lparr>product_id = ident, product_name = name, product_price = 10,
      product_description = ''A product'', product_sizes = None, product_colors = None,
      product_category = category, product_keywords = keywords\<rparr>"

definition example_catalog :: "product list" where
  "example_catalog =
     [example_product ''P1'' ''Classic Tee'' None (Some [''Shirt'', ''tee'']),
      example_product ''P2'' ''Blue Jeans'' (Some ''Trousers'') (Some []),
      example_product ''P3'' ''Runner'' (Some ''Shoes'') None,
      example_product ''P4'' ''Red Cap'' (Some []) None,
      example_product ''P5'' ''Beanie'' None (Some [''hat''])]"

definition example_env :: ai_env where
  "example_env =
     \<lparr>products_file = Inr (Some example_catalog),
      ollama = (\<lambda>messages. Response True ''200 OK'' (Inr (Some ''Sure!''))),
      createSystemPrompt = (\<lambda>products. ''You are a sales assistant''),
      extractCustomerInfo = (\<lambda>message history. \<lparr>info_name = None, info_city = None\<rparr>)\<rparr>"

definition broken_catalog_env :: ai_env where
  "broken_catalog_env = example_env\<lparr>products_file := Inl (Error ''ENOENT'')\<rparr>"

definition fresh_ai_state :: ai_state where
  "fresh_ai_state = \<lparr>productsData = None, ollama_requests = []\<rparr>"


definition example_lead :: lead_row where
  "example_lead =
     \<lparr>lead_id = 1, lead_phone_number = ''15551234567@s.whatsapp.net'',
      lead_customer_name = Some ''John'', lead_city = None, lead_status = ''lost'',
      lead_needs_human_agent = False, lead_last_message_at = 10, lead_created_at = 10,
      lead_updated_at = 10\<rparr>"

definition example_turn :: "uuid \<Rightarrow> string \<Rightarrow> string \<Rightarrow> timestamptz \<Rightarrow> chat_row" where
  "example_turn ident role text created =
     \<lparr>chat_id = ident, chat_lead_id = 1, chat_phone_number = ''15551234567@s.whatsapp.net'',
      chat_role = role, chat_message = text, chat_metadata = None, chat_created_at = created\<rparr>"

definition example_order :: order_row where
  "example_order =
     \<lparr>order_id = 5, order_lead_id = 1, order_phone_number = ''15551234567@s.whatsapp.net'',
      order_products = [JString ''PROD001''], order_total_amount = None,
      order_status = ''pending'', order_notes = None, order_created_at = 40\<rparr>"

definition example_db :: db where
  "example_db =
     \<lparr>leads = [example_lead],
      chat_history =
        [example_turn 2 ''user'' ''hello'' 10,
         example_turn 3 ''assistant'' ''hi, how can I help?'' 20,
         example_turn 4 ''user'' ''do you sell shoes?'' 30],
      orders = [example_order], fresh_uuid = 6, outages = []\<rparr>"



section \<open>Facts about the string operations\<close>

lemma startsWith_prefix: "startsWith s p \<longleftrightarrow> prefix p s"
  by (induction s p rule: startsWith.induct) auto

lemma includes_sublist: "includes_str s p \<longleftrightarrow> sublist p s"
proof (induction s)
  case Nil
  show ?case by (cases p) auto
next
  case (Cons c cs)
  show ?case by (simp add: Cons.IH startsWith_prefix sublist_Cons_right)
qed

lemma replace_non_digits_filter: "replace_non_digits s = filter is_digit s"
  by (induction s) auto

lemma suffix_no_digit: "filter is_digit whatsapp_suffix = []"
  by (simp add: whatsapp_suffix_def is_digit_def)

section \<open>Phone-number normalisation\<close>

text \<open>
  C8: for every input string, \<open>formatPhoneNumber\<close> keeps exactly the digits of the input,
  in their order, puts \<open>1\<close> in front exactly when there are ten digits and the first is
  not \<open>1\<close>, and ends the result with the fixed suffix \<open>@s.whatsapp.net\<close>.
\<close>

theorem formatPhoneNumber_normalises:
  "formatPhoneNumber s =
     (if length (filter is_digit s) = 10 \<and> \<not> prefix ''1'' (filter is_digit s)
      then ''1'' else '''')
     @ filter is_digit s @ ''@s.whatsapp.net''"
  by (simp add: formatPhoneNumber_def Let_def replace_non_digits_filter startsWith_prefix
      whatsapp_suffix_def)

text \<open>
  C10: \<open>formatPhoneNumber\<close> is idempotent. The suffix holds no digit, and once \<open>1\<close> has
  been put in front there are eleven digits, so a second pass changes nothing.
\<close>

theorem formatPhoneNumber_idempotent:
  "formatPhoneNumber (formatPhoneNumber s) = formatPhoneNumber s"
proof -
  let ?d = "filter is_digit s"
  have one: "is_digit CHR ''1''"
    by (simp add: is_digit_def)
  show ?thesis
  proof (cases "\<not> prefix ''1'' ?d \<and> length ?d = 10")
    case True
    then have first: "formatPhoneNumber s = ''1'' @ ?d @ whatsapp_suffix"
      by (simp add: formatPhoneNumber_def Let_def replace_non_digits_filter startsWith_prefix)
    have "filter is_digit (''1'' @ ?d @ whatsapp_suffix) = ''1'' @ ?d"
      using one by (simp add: suffix_no_digit)
    then have "formatPhoneNumber (''1'' @ ?d @ whatsapp_suffix) = ''1'' @ ?d @ whatsapp_suffix"
      by (simp add: formatPhoneNumber_def Let_def replace_non_digits_filter startsWith_prefix)
    with first show ?thesis by simp
  next
    case False
    then have first: "formatPhoneNumber s = ?d @ whatsapp_suffix"
      by (auto simp: formatPhoneNumber_def Let_def replace_non_digits_filter startsWith_prefix)
    have "filter is_digit (?d @ whatsapp_suffix) = ?d"
      by (simp add: suffix_no_digit)
    with False have "formatPhoneNumber (?d @ whatsapp_suffix) = ?d @ whatsapp_suffix"
      by (auto simp: formatPhoneNumber_def Let_def replace_non_digits_filter startsWith_prefix)
    with first show ?thesis by simp
  qed
qed

section \<open>The responder\<close>

lemma sublist_map_iff: "sublist ys (map f xs) \<longleftrightarrow> (\<exists>zs. sublist zs xs \<and> map f zs = ys)"
proof
  assume "sublist ys (map f xs)"
  then obtain ps ss where "map f xs = ps @ ys @ ss"
    by (auto simp: sublist_def)
  then obtain a r where ar: "xs = a @ r" "map f r = ys @ ss"
    by (metis map_eq_append_conv)
  then obtain b c where "r = b @ c" "map f b = ys"
    by (metis map_eq_append_conv)
  with ar have "xs = a @ b @ c" "map f b = ys"
    by simp_all
  then show "\<exists>zs. sublist zs xs \<and> map f zs = ys"
    by (auto simp: sublist_def)
next
  assume "\<exists>zs. sublist zs xs \<and> map f zs = ys"
  then obtain zs ps ss where "xs = ps @ zs @ ss" "map f zs = ys"
    by (auto simp: sublist_def)
  then have "map f xs = map f ps @ ys @ map f ss"
    by simp
  then show "sublist ys (map f xs)"
    unfolding sublist_def by blast
qed

lemma includes_lower_iff:
  "includes_str (toLowerCase m) (toLowerCase k) \<longleftrightarrow> occurs_ignoring_case k m"
proof -
  have "includes_str (toLowerCase m) (toLowerCase k)
        \<longleftrightarrow> (\<exists>mid. sublist mid m \<and> toLowerCase mid = toLowerCase k)"
    by (simp add: includes_sublist toLowerCase_def sublist_map_iff)
  also have "\<dots> \<longleftrightarrow> occurs_ignoring_case k m"
    unfolding occurs_ignoring_case_def sublist_def by blast
  finally show ?thesis .
qed

lemma agentKeywords_lower: "k \<in> set agentKeywords \<Longrightarrow> toLowerCase k = k"
  by (auto simp: agentKeywords_def toLowerCase_def toLowerCase_char_def)

lemma isAgentRequested_iff: "isAgentRequested m \<longleftrightarrow> contains_handoff_keyword m"
proof -
  have "includes_str (toLowerCase m) k \<longleftrightarrow> occurs_ignoring_case k m"
    if "k \<in> set agentKeywords" for k
    using includes_lower_iff [of m k] agentKeywords_lower [OF that] by simp
  then show ?thesis
    by (auto simp: isAgentRequested_def contains_handoff_keyword_def list_ex_iff)
qed

lemma relevant_loop_filter:
  "relevant_loop lm ps acc = acc @ filter (product_matches lm) ps"
  by (induction ps arbitrary: acc) auto

lemma product_matches_imp:
  "product_matches (toLowerCase msg) p \<Longrightarrow> matches_message msg p"
  unfolding product_matches_def matches_message_def
  by (auto simp: includes_lower_iff list_ex_iff split: if_splits option.splits)

lemma loadProducts_requests:
  "ollama_requests (snd (loadProducts env st)) = ollama_requests st"
  by (auto simp: loadProducts_def split: option.splits sum.splits)

text \<open>
  C7: for every message and every catalog, \<open>findRelevantProducts\<close> returns at most three
  products, each of them matches the message (by a keyword, by its category or by its name,
  as a case-insensitive substring), and they come in the order of the catalog.
\<close>

theorem findRelevantProducts_capped:
  "length (findRelevantProducts msg products) \<le> 3
   \<and> (\<forall>p \<in> set (findRelevantProducts msg products). matches_message msg p)
   \<and> subseq (findRelevantProducts msg products) products"
proof -
  let ?all = "filter (product_matches (toLowerCase msg)) products"
  have r: "findRelevantProducts msg products = take 3 ?all"
    by (simp add: findRelevantProducts_def relevant_loop_filter)
  have "set (take 3 ?all) \<subseteq> set ?all"
    by (rule set_take_subset)
  then have m: "\<forall>p \<in> set (take 3 ?all). matches_message msg p"
    using product_matches_imp by auto
  have "subseq (take 3 ?all) ?all"
    by (simp add: prefix_imp_subseq take_is_prefix)
  then have s: "subseq (take 3 ?all) products"
    using subseq_filter_left subseq_order.trans by blast
  show ?thesis
    unfolding r using m s by simp
qed

theorem findRelevantProducts_capped_witness:
  "findRelevantProducts ''Need a SHIRT, shoes and a red cap or hat'' example_catalog
     = [example_catalog ! 0, example_catalog ! 2, example_catalog ! 3]
   \<and> matches_message ''Need a SHIRT, shoes and a red cap or hat'' (example_catalog ! 0)
   \<and> matches_message ''Need a SHIRT, shoes and a red cap or hat'' (example_catalog ! 2)
   \<and> matches_message ''Need a SHIRT, shoes and a red cap or hat'' (example_catalog ! 3)
   \<and> subseq [example_catalog ! 0, example_catalog ! 2, example_catalog ! 3] example_catalog"
proof -
  have r: "findRelevantProducts ''Need a SHIRT, shoes and a red cap or hat'' example_catalog
           = [example_catalog ! 0, example_catalog ! 2, example_catalog ! 3]"
    by code_simp
  from findRelevantProducts_capped
         [of "''Need a SHIRT, shoes and a red cap or hat''" example_catalog]
  show ?thesis
    unfolding r by simp
qed

text \<open>
  C2, as the code has it: for every message that contains a handoff keyword, whatever the
  case of its letters, \<open>generateResponse\<close> sends no request to the model server; and when
  the product catalog loads (it is cached, or the file is read and parsed without error),
  the reply is the fixed handoff reply with \<open>metadata.agentRequested = true\<close>. The catalog
  is loaded before the keywords are looked for.
\<close>

theorem handoff_skips_model:
  assumes "contains_handoff_keyword m"
  shows "ollama_requests (snd (generateResponse env st m h)) = ollama_requests st
         \<and> (catalog_loads env st \<longrightarrow>
              fst (generateResponse env st m h) =
                \<lparr>message = HandoffReply,
                 metadata = no_metadata\<lparr>agentRequested := Some True\<rparr>\<rparr>)"
proof -
  from assms have req: "isAgentRequested m"
    by (simp add: isAgentRequested_iff)
  obtain r st1 where l: "loadProducts env st = (r, st1)"
    by (cases "loadProducts env st")
  with loadProducts_requests [of env st] have st1: "ollama_requests st1 = ollama_requests st"
    by simp
  have loads: "\<not> isl r" if c: "catalog_loads env st"
  proof (cases "productsData st")
    case None
    with c have "\<not> isl (products_file env)"
      by (simp add: catalog_loads_def)
    then obtain ps where pf: "products_file env = Inr ps"
      by (cases "products_file env") auto
    have "loadProducts env st = (Inr ps, st\<lparr>productsData := ps\<rparr>)"
      by (simp add: loadProducts_def None pf)
    with l have "r = Inr ps"
      by (metis fst_conv)
    then show ?thesis
      by simp
  next
    case (Some ps)
    then have "loadProducts env st = (Inr (Some ps), st)"
      by (simp add: loadProducts_def)
    with l have "r = Inr (Some ps)"
      by (metis fst_conv)
    then show ?thesis
      by simp
  qed
  show ?thesis
  proof (cases r)
    case (Inl e)
    with l st1 loads show ?thesis
      by (auto simp: generateResponse_def generateResponse_try_def)
  next
    case (Inr products)
    with l st1 req show ?thesis
      by (simp add: generateResponse_def generateResponse_try_def)
  qed
qed

theorem handoff_skips_model_witness:
  "contains_handoff_keyword ''Get me a HUMAN''
   \<and> catalog_loads example_env fresh_ai_state
   \<and> ollama_requests (snd (generateResponse example_env fresh_ai_state ''Get me a HUMAN'' [])) = []
   \<and> agentRequested (metadata (fst (generateResponse example_env fresh_ai_state ''Get me a HUMAN'' [])))
       = Some True"
proof -
  have "toLowerCase ''HUMAN'' = toLowerCase ''human''"
    by code_simp
  then have "occurs_ignoring_case ''human'' (''Get me a '' @ ''HUMAN'' @ [])"
    unfolding occurs_ignoring_case_def by blast
  then have k: "contains_handoff_keyword ''Get me a HUMAN''"
    by (auto simp: contains_handoff_keyword_def agentKeywords_def)
  have c: "catalog_loads example_env fresh_ai_state"
    by (simp add: catalog_loads_def example_env_def)
  from handoff_skips_model [OF k, of example_env fresh_ai_state "[]"] c k show ?thesis
    by (simp add: fresh_ai_state_def no_metadata_def)
qed

text \<open>
  C2 as it is written fails when the catalog cannot be loaded: the message \<open>agent\<close> then
  gets the fallback reply, whose metadata has no \<open>agentRequested\<close>.
\<close>

theorem handoff_without_catalog_counterexample:
  "contains_handoff_keyword ''agent''
   \<and> fst (generateResponse broken_catalog_env fresh_ai_state ''agent'' [])
       = fallback_response (Error ''ENOENT'')
   \<and> agentRequested (metadata (fst (generateResponse broken_catalog_env fresh_ai_state ''agent'' [])))
       \<noteq> Some True"
proof -
  have "occurs_ignoring_case ''agent'' ([] @ ''agent'' @ [])"
    unfolding occurs_ignoring_case_def by blast
  then have k: "contains_handoff_keyword ''agent''"
    by (auto simp: contains_handoff_keyword_def agentKeywords_def)
  have r: "fst (generateResponse broken_catalog_env fresh_ai_state ''agent'' [])
           = fallback_response (Error ''ENOENT'')"
    by (simp add: generateResponse_def generateResponse_try_def loadProducts_def
        broken_catalog_env_def example_env_def fresh_ai_state_def)
  show ?thesis
    using k r by (simp add: fallback_response_def no_metadata_def)
qed

text \<open>
  C9: every error thrown inside \<open>generateResponse\<close> is caught and turned into the fixed
  fallback reply with \<open>metadata.error = true\<close> and the message of the error: an error of
  the \<open>try\<close> block whatever its origin, and so a failure to load the product catalog as
  well as a failure of the call to the model server. What the \<open>try\<close> block returns is
  returned as it is, so \<open>generateResponse\<close> gives a reply on every input.
\<close>

theorem generateResponse_catches:
  "(\<forall>e. fst (generateResponse_try env st m h) = Inl e \<longrightarrow>
         fst (generateResponse env st m h) = fallback_response e)
   \<and> (\<forall>r. fst (generateResponse_try env st m h) = Inr r \<longrightarrow>
         fst (generateResponse env st m h) = r)
   \<and> (\<forall>e. fst (loadProducts env st) = Inl e \<longrightarrow>
         fst (generateResponse env st m h) = fallback_response e)
   \<and> (\<forall>e ps st1. loadProducts env st = (Inr (Some ps), st1) \<and> \<not> isAgentRequested m
         \<and> fst (callOllama env st1
                  (h @ [\<lparr>entry_role = ''user'', entry_message = Some m, entry_content = None\<rparr>])
                  (createSystemPrompt env ps)) = Inl e \<longrightarrow>
         fst (generateResponse env st m h) = fallback_response e)
   \<and> (\<forall>e. message (fallback_response e) = FallbackReply
         \<and> error (metadata (fallback_response e)) = Some True
         \<and> errorMessage (metadata (fallback_response e)) = Some (error_message e))"
proof (intro conjI allI impI)
  fix e assume "fst (generateResponse_try env st m h) = Inl e"
  then show "fst (generateResponse env st m h) = fallback_response e"
    by (cases "generateResponse_try env st m h") (simp add: generateResponse_def)
next
  fix r assume "fst (generateResponse_try env st m h) = Inr r"
  then show "fst (generateResponse env st m h) = r"
    by (cases "generateResponse_try env st m h") (simp add: generateResponse_def)
next
  fix e assume "fst (loadProducts env st) = Inl e"
  then show "fst (generateResponse env st m h) = fallback_response e"
    by (cases "loadProducts env st")
      (simp add: generateResponse_def generateResponse_try_def)
next
  fix e ps st1
  assume a: "loadProducts env st = (Inr (Some ps), st1) \<and> \<not> isAgentRequested m
         \<and> fst (callOllama env st1
                  (h @ [\<lparr>entry_role = ''user'', entry_message = Some m, entry_content = None\<rparr>])
                  (createSystemPrompt env ps)) = Inl e"
  then show "fst (generateResponse env st m h) = fallback_response e"
    by (cases "callOllama env st1
                  (h @ [\<lparr>entry_role = ''user'', entry_message = Some m, entry_content = None\<rparr>])
                  (createSystemPrompt env ps)")
      (simp add: generateResponse_def generateResponse_try_def Let_def)
qed (simp_all add: fallback_response_def no_metadata_def)

theorem generateResponse_catches_witness:
  "fst (loadProducts broken_catalog_env fresh_ai_state) = Inl (Error ''ENOENT'')
   \<and> fst (generateResponse broken_catalog_env fresh_ai_state ''hello'' [])
       = fallback_response (Error ''ENOENT'')
   \<and> error (metadata (fallback_response (Error ''ENOENT''))) = Some True"
proof -
  have l: "fst (loadProducts broken_catalog_env fresh_ai_state) = Inl (Error ''ENOENT'')"
    by (simp add: loadProducts_def broken_catalog_env_def example_env_def fresh_ai_state_def)
  with generateResponse_catches [of broken_catalog_env fresh_ai_state "''hello''" "[]"]
  show ?thesis
    by blast
qed

section \<open>The conversation store\<close>

lemma request_Inr:
  "request stmt d = (Inr r, d') \<Longrightarrow> stmt (d\<lparr>outages := tl (outages d)\<rparr>) = Inr (r, d')"
  by (auto simp: request_def Let_def split: list.splits bool.splits sum.splits)

lemma request_Inl_tables:
  "request stmt d = (Inl e, d') \<Longrightarrow> d' = d\<lparr>outages := tl (outages d)\<rparr>"
  by (auto simp: request_def Let_def split: list.splits bool.splits sum.splits)

lemma request_no_outage:
  assumes "outages d = []"
  shows "request stmt d = (case stmt d of Inl e \<Rightarrow> (Inl e, d) | Inr (r, d') \<Rightarrow> (Inr r, d'))"
proof -
  have same: "d\<lparr>outages := tl (outages d)\<rparr> = d"
    using assms by (cases d) simp
  have "request stmt d =
          (case stmt (d\<lparr>outages := tl (outages d)\<rparr>) of
             Inl e \<Rightarrow> (Inl e, d\<lparr>outages := tl (outages d)\<rparr>)
           | Inr (r, d') \<Rightarrow> (Inr r, d'))"
    unfolding request_def Let_def by (simp only: assms list.case)
  then show ?thesis
    by (simp only: same)
qed


lemma filter_map_if:
  assumes "\<And>x. P (f x) = P x"
  shows "filter P (map (\<lambda>x. if P x then f x else x) xs) = map f (filter P xs)"
  using assms by (induction xs) auto


lemma single_Inr: "single rows = Inr row \<longleftrightarrow> rows = [row]"
  by (auto simp: single_def split: list.splits)

lemma update_leads_Inr:
  assumes "update_leads selected change d = Inr (row, d')"
  shows "\<exists>old. filter selected (leads d) = [old] \<and> row = change old
           \<and> d' = d\<lparr>leads := map (\<lambda>l. if selected l then change l else l) (leads d)\<rparr>"
  using assms
  by (auto simp: update_leads_def Let_def single_Inr split: if_splits sum.splits)

lemma maybeSingle_Nil: "maybeSingle [] = Inr None"
  by (simp add: maybeSingle_def)


text \<open>
  When no request is going to fail, \<open>getChatHistory\<close> returns, and so does
  \<open>getOrCreateLead\<close> for a number that no lead has.
\<close>

lemma getChatHistory_returns:
  assumes "outages d = []"
  shows "\<exists>rows. getChatHistory phoneNumber n d = (Inr rows, d)"
  using assms by (simp add: getChatHistory_def request_no_outage select_chat_history_def)

lemma getOrCreateLead_returns:
  assumes "outages d = []"
    and "phoneNumber \<notin> set (map lead_phone_number (leads d))"
    and "fresh_uuid d \<notin> set (map lead_id (leads d))"
  shows "\<exists>created d'. getOrCreateLead now phoneNumber d = (Inr created, d')"
proof -
  have none: "filter (\<lambda>l. lead_phone_number l = phoneNumber) (leads d) = []"
    using assms(2) by (auto simp: filter_empty_conv)
  then have "request (select_lead_by_phone phoneNumber) d = (Inr None, d)"
    using assms(1) by (simp add: request_no_outage select_lead_by_phone_def maybeSingle_Nil)
  moreover have "\<exists>created d'. request (insert_lead now phoneNumber ''new'' now) d = (Inr created, d')"
    using assms by (simp add: request_no_outage insert_lead_def Let_def lead_statuses_def)
  ultimately show ?thesis
    by (simp add: getOrCreateLead_def)
qed









text \<open>
  C5: after every call of \<open>createOrder\<close> that returns an order, the lead with the id
  \<open>leadId\<close> has the status \<open>converted\<close>, whatever its status was before.
\<close>

theorem createOrder_converts_lead:
  assumes "createOrder now leadId phoneNumber products totalAmount notes d = (Inr placed, d')"
  shows "\<exists>parent. filter (\<lambda>l. lead_id l = leadId) (leads d') = [parent]
           \<and> lead_status parent = ''converted''"
proof -
  from assms obtain d1 updated where
    ins: "request (insert_order now leadId phoneNumber products totalAmount ''pending'' notes) d
            = (Inr placed, d1)"
    and upd: "updateLead now leadId (no_updates\<lparr>set_status := Some ''converted''\<rparr>) d1
            = (Inr updated, d')"
    by (auto simp: createOrder_def split: prod.splits sum.splits)
  let ?change = "apply_updates (no_updates\<lparr>set_status := Some ''converted''\<rparr>) now"
  let ?d1 = "d1\<lparr>outages := tl (outages d1)\<rparr>"
  from upd have "update_leads (\<lambda>l. lead_id l = leadId) ?change ?d1 = Inr (updated, d')"
    by (auto simp: updateLead_def dest: request_Inr)
  then obtain old where old: "filter (\<lambda>l. lead_id l = leadId) (leads ?d1) = [old]"
    and d': "d' = ?d1\<lparr>leads := map (\<lambda>l. if lead_id l = leadId then ?change l else l) (leads ?d1)\<rparr>"
    by (auto dest: update_leads_Inr)
  have keep: "\<And>l. (lead_id (?change l) = leadId) = (lead_id l = leadId)"
    by (simp add: apply_updates_def)
  have "filter (\<lambda>l. lead_id l = leadId) (leads d') = map ?change [old]"
    unfolding d' using filter_map_if [of "\<lambda>l. lead_id l = leadId" ?change, OF keep] old
    by simp
  moreover have "lead_status (?change old) = ''converted''"
    by (simp add: apply_updates_def)
  ultimately show ?thesis
    by simp
qed

theorem createOrder_converts_lead_witness:
  "lead_status example_lead = ''lost''
   \<and> createOrder 50 1 ''15551234567@s.whatsapp.net'' [JString ''PROD001''] None None example_db
       = (Inr (example_order\<lparr>order_id := 6, order_created_at := 50\<rparr>),
          example_db\<lparr>leads := [example_lead\<lparr>lead_status := ''converted'',
                                                lead_updated_at := 50\<rparr>],
                       orders := [example_order,
                                  example_order\<lparr>order_id := 6, order_created_at := 50\<rparr>],
                       fresh_uuid := 7\<rparr>)
   \<and> (\<exists>parent.
         filter (\<lambda>l. lead_id l = 1)
           (leads (example_db\<lparr>leads := [example_lead\<lparr>lead_status := ''converted'',
                                                          lead_updated_at := 50\<rparr>],
                                 orders := [example_order,
                                            example_order\<lparr>order_id := 6,
                                                            order_created_at := 50\<rparr>],
                                 fresh_uuid := 7\<rparr>)) = [parent]
         \<and> lead_status parent = ''converted'')"
proof -
  have l: "lead_status example_lead = ''lost''"
    by (simp add: example_lead_def)
  have r: "createOrder 50 1 ''15551234567@s.whatsapp.net'' [JString ''PROD001''] None None
             example_db
       = (Inr (example_order\<lparr>order_id := 6, order_created_at := 50\<rparr>),
          example_db\<lparr>leads := [example_lead\<lparr>lead_status := ''converted'',
                                                lead_updated_at := 50\<rparr>],
                       orders := [example_order,
                                  example_order\<lparr>order_id := 6, order_created_at := 50\<rparr>],
                       fresh_uuid := 7\<rparr>)"
    by code_simp
  from createOrder_converts_lead [OF r] l r show ?thesis
    by blast
qed

lemma includes_status_iff:
  "includes_status statuses status \<longleftrightarrow> status \<in> set (map (\<lambda>s. Some (JString s)) statuses)"
  by (cases "(statuses, status)" rule: includes_status.cases) auto

text \<open>
  C6: for every value of \<open>status\<close> other than the four strings \<open>pending\<close>,
  \<open>confirmed\<close>, \<open>completed\<close> and \<open>cancelled\<close> (a value that is not there counts as
  one), the handler of \<open>PUT /api/orders/:orderId/status\<close> answers 400 with an error
  envelope and sends no request to the store, which is left as it was.
\<close>

theorem put_order_status_rejects:
  assumes "status \<notin> set (map (\<lambda>s. Some (JString s))
                            [''pending'', ''confirmed'', ''completed'', ''cancelled''])"
  shows "status_code (fst (put_order_status orderId status d)) = 400
         \<and> (\<exists>reason. body (fst (put_order_status orderId status d)) = Failure reason None)
         \<and> snd (put_order_status orderId status d) = d"
proof -
  from assms have "\<not> includes_status validStatuses status"
    unfolding includes_status_iff validStatuses_def by simp
  then show ?thesis
    by (simp add: put_order_status_def)
qed

theorem put_order_status_rejects_witness:
  "Some (JString ''shipped'') \<notin> set (map (\<lambda>s. Some (JString s))
                            [''pending'', ''confirmed'', ''completed'', ''cancelled''])
   \<and> status_code (fst (put_order_status 5 (Some (JString ''shipped'')) example_db)) = 400
   \<and> snd (put_order_status 5 (Some (JString ''shipped'')) example_db) = example_db
   \<and> orders (snd (put_order_status 5 (Some (JString ''shipped'')) example_db)) = [example_order]"
proof -
  have h: "Some (JString ''shipped'') \<notin> set (map (\<lambda>s. Some (JString s))
                            [''pending'', ''confirmed'', ''completed'', ''cancelled''])"
    by simp
  from put_order_status_rejects [OF h, of 5 example_db] h show ?thesis
    by (simp add: example_db_def)
qed

section \<open>The statistics\<close>




lemma floor_log2_less:
  assumes "0 < x"
  shows "x < 2 powi (floor_log2 x + 1)"
proof -
  obtain a b where q: "quotient_of x = (a, b)"
    by (cases "quotient_of x")
  then have b: "0 < b" and x: "x = of_int a / of_int b"
    using quotient_of_denom_pos quotient_of_div by blast+
  with assms have a: "0 < a"
    by (simp add: zero_less_divide_iff)
  let ?d = "bitlen a - bitlen b"
  show ?thesis
  proof (cases "2 powi ?d \<le> x")
    case True
    have lb: "1 \<le> bitlen b"
      using b by (simp add: bitlen_alt_def)
    have "a < 2 ^ nat (bitlen a)"
      using bitlen_bounds [OF a] by simp
    then have "(of_int a :: rat) < of_int ((2::int) ^ nat (bitlen a))"
      by (rule of_int_less_iff [THEN iffD2])
    then have hi: "(of_int a :: rat) < 2 powi (bitlen a)"
      using bitlen_nonneg [of a] by (simp add: power_int_def)
    have "(2::int) ^ nat (bitlen b - 1) \<le> b"
      using bitlen_bounds [OF b] by simp
    then have "(of_int ((2::int) ^ nat (bitlen b - 1)) :: rat) \<le> of_int b"
      by (rule of_int_le_iff [THEN iffD2])
    then have lo: "(2::rat) powi (bitlen b - 1) \<le> of_int b"
      using lb by (simp add: power_int_def)
    have e: "?d + 1 = bitlen a - (bitlen b - 1)"
      by simp
    have "x = of_int a / of_int b"
      by (rule x)
    also have "\<dots> < 2 powi (bitlen a) / 2 powi (bitlen b - 1)"
      using lo hi b a by (intro frac_less) auto
    also have "\<dots> = 2 powi (bitlen a - (bitlen b - 1))"
      by (rule power_int_diff [symmetric]) simp
    also have "\<dots> = 2 powi (?d + 1)"
      by (simp only: e)
    finally show ?thesis
      using True by (simp add: floor_log2_def q)
  next
    case False
    then show ?thesis
      by (simp add: floor_log2_def q)
  qed
qed










lemma request_count_orders:
  assumes "request count_orders d = (Inr n, d')"
  shows "n = length (orders d) \<and> leads d' = leads d"
  using request_Inr [OF assms] by (auto simp: count_orders_def)





end
